theory Spec2Isabelle
  imports Complex_Main
begin

section \<open>Numbers\<close>

text \<open>
  The amounts, thresholds and rates of \<^verbatim>\<open>src/App.tsx\<close> are JavaScript numbers. A
  finite number is modelled by the rational it denotes, with exact arithmetic: the
  rounding of IEEE-754 doubles is not modelled, and neither is the sign of zero. The
  three non-finite values are modelled, because the registry writes \<^verbatim>\<open>Infinity\<close> as
  the threshold of the last bracket of every schedule and the loop subtracts from it.
\<close>

datatype number = Fin rat | PInf | NInf | NaN

text \<open>\<^verbatim>\<open>a + b\<close>: NaN is absorbing, and the sum of opposite infinities is NaN.\<close>

fun js_add :: "number \<Rightarrow> number \<Rightarrow> number" where
  "js_add NaN b = NaN"
| "js_add a NaN = NaN"
| "js_add (Fin x) (Fin y) = Fin (x + y)"
| "js_add (Fin x) b = b"
| "js_add a (Fin y) = a"
| "js_add PInf PInf = PInf"
| "js_add NInf NInf = NInf"
| "js_add PInf NInf = NaN"
| "js_add NInf PInf = NaN"

fun js_neg :: "number \<Rightarrow> number" where
  "js_neg (Fin x) = Fin (- x)"
| "js_neg PInf = NInf"
| "js_neg NInf = PInf"
| "js_neg NaN = NaN"

text \<open>\<^verbatim>\<open>a - b\<close> is \<^verbatim>\<open>a + (-b)\<close>.\<close>

definition js_sub :: "number \<Rightarrow> number \<Rightarrow> number" where
  "js_sub a b = js_add a (js_neg b)"

text \<open>The sign of a number that is not NaN: \<open>-1\<close>, \<open>0\<close> or \<open>1\<close>.\<close>

fun js_sign :: "number \<Rightarrow> rat" where
  "js_sign (Fin x) = sgn x"
| "js_sign PInf = 1"
| "js_sign NInf = - 1"
| "js_sign NaN = 0"

text \<open>\<^verbatim>\<open>a * b\<close>: an infinity times zero is NaN, otherwise the signs multiply.\<close>

fun js_mul :: "number \<Rightarrow> number \<Rightarrow> number" where
  "js_mul NaN b = NaN"
| "js_mul a NaN = NaN"
| "js_mul (Fin x) (Fin y) = Fin (x * y)"
| "js_mul a b =
     (if js_sign a * js_sign b = 0 then NaN
      else if 0 < js_sign a * js_sign b then PInf else NInf)"

text \<open>\<^verbatim>\<open>a <= b\<close>: false as soon as one side is NaN.\<close>

fun js_le :: "number \<Rightarrow> number \<Rightarrow> bool" where
  "js_le NaN b = False"
| "js_le a NaN = False"
| "js_le (Fin x) (Fin y) = (x \<le> y)"
| "js_le NInf b = True"
| "js_le a PInf = True"
| "js_le a b = False"

text \<open>\<^verbatim>\<open>Math.max(a, b)\<close> and \<^verbatim>\<open>Math.min(a, b)\<close>: NaN if one argument is NaN.\<close>

fun Math_max :: "number \<Rightarrow> number \<Rightarrow> number" where
  "Math_max NaN b = NaN"
| "Math_max a NaN = NaN"
| "Math_max a b = (if js_le a b then b else a)"

fun Math_min :: "number \<Rightarrow> number \<Rightarrow> number" where
  "Math_min NaN b = NaN"
| "Math_min a NaN = NaN"
| "Math_min a b = (if js_le a b then a else b)"

section \<open>Static data: the fiscal registry\<close>

text \<open>
  \<^verbatim>\<open>interface AbattementInfo { abattement: number;
     bareme: { tranche: number; taux: number }[]; note?: string }\<close>
  The field \<^verbatim>\<open>bareme\<close> carries a grave accent in the source, and the \<^verbatim>\<open>note\<close> (here \<open>info_note\<close>) of the
  spouse profile carries accents too; both are written without them here.
\<close>

record palier =
  tranche :: number
  taux :: number

record AbattementInfo =
  abattement :: number
  bareme :: "palier list"
  info_note :: "string option"

text \<open>The schedule of the direct line, which the source repeats for the spouse.\<close>

definition bareme_ligne_directe :: "palier list" where
  "bareme_ligne_directe =
     [\<lparr>tranche = Fin 8072, taux = Fin (5 / 100)\<rparr>, \<lparr>tranche = Fin 12109, taux = Fin (10 / 100)\<rparr>,
      \<lparr>tranche = Fin 15932, taux = Fin (15 / 100)\<rparr>, \<lparr>tranche = Fin 552324, taux = Fin (20 / 100)\<rparr>,
      \<lparr>tranche = Fin 902838, taux = Fin (30 / 100)\<rparr>, \<lparr>tranche = Fin 1805677, taux = Fin (40 / 100)\<rparr>,
      \<lparr>tranche = PInf, taux = Fin (45 / 100)\<rparr>]"

text \<open>
  \<^verbatim>\<open>const FISCAL_DATA: Record<string, AbattementInfo>\<close>, an object literal with five
  keys: the map below holds these own properties.
\<close>

definition FISCAL_DATA :: "string \<rightharpoonup> AbattementInfo" where
  "FISCAL_DATA =
     [''enfant'' \<mapsto>
        \<lparr>abattement = Fin 100000, bareme = bareme_ligne_directe, info_note = None\<rparr>,
      ''conjoint'' \<mapsto>
        \<lparr>abattement = Fin 80724, bareme = bareme_ligne_directe,
         info_note = Some ''Pour une succession, le conjoint ou partenaire de PACS est totalement exonere.''\<rparr>,
      ''frere-soeur'' \<mapsto>
        \<lparr>abattement = Fin 15932,
         bareme = [\<lparr>tranche = Fin 24430, taux = Fin (35 / 100)\<rparr>, \<lparr>tranche = PInf, taux = Fin (45 / 100)\<rparr>],
         info_note = None\<rparr>,
      ''neveu-niece'' \<mapsto>
        \<lparr>abattement = Fin 7967, bareme = [\<lparr>tranche = PInf, taux = Fin (55 / 100)\<rparr>], info_note = None\<rparr>,
      ''autre'' \<mapsto>
        \<lparr>abattement = Fin 1594, bareme = [\<lparr>tranche = PInf, taux = Fin (60 / 100)\<rparr>], info_note = None\<rparr>]"

text \<open>
  The lookup \<^verbatim>\<open>FISCAL_DATA[lienParente]\<close> reads a property of that object. An own
  key gives its profile. An object literal also inherits the properties of
  \<^verbatim>\<open>Object.prototype\<close>: under one of the names below the lookup gives a function (or,
  for \<^verbatim>\<open>__proto__\<close>, the prototype object), a truthy value that has neither an
  \<^verbatim>\<open>abattement\<close> nor a \<^verbatim>\<open>bareme\<close>. Every other string gives
  \<^verbatim>\<open>undefined\<close>.
\<close>

definition Object_prototype_names :: "string list" where
  "Object_prototype_names =
     [''constructor'', ''hasOwnProperty'', ''isPrototypeOf'', ''propertyIsEnumerable'',
      ''toLocaleString'', ''toString'', ''valueOf'', ''__proto__'',
      ''__defineGetter__'', ''__defineSetter__'', ''__lookupGetter__'', ''__lookupSetter__'']"

datatype property_value = Undefined | Profile AbattementInfo | Inherited_member

definition get_property :: "(string \<rightharpoonup> AbattementInfo) \<Rightarrow> string \<Rightarrow> property_value" where
  "get_property registry key =
     (case registry key of
        Some info \<Rightarrow> Profile info
      | None \<Rightarrow> if key \<in> set Object_prototype_names then Inherited_member else Undefined)"

text \<open>
  \<^verbatim>\<open>fiscalInfo.abattement\<close> as it enters the subtraction of step 1: a missing field is
  \<^verbatim>\<open>undefined\<close>, which the subtraction converts to NaN.
\<close>

fun read_abattement :: "property_value \<Rightarrow> number" where
  "read_abattement (Profile info) = abattement info"
| "read_abattement v = NaN"

text \<open>\<^verbatim>\<open>fiscalInfo.bareme\<close>: \<open>None\<close> is \<^verbatim>\<open>undefined\<close>.\<close>

fun read_bareme :: "property_value \<Rightarrow> palier list option" where
  "read_bareme (Profile info) = Some (bareme info)"
| "read_bareme v = None"

section \<open>The calculation engine\<close>

text \<open>\<^verbatim>\<open>useState<'succession' | 'donation'>\<close>\<close>

datatype typeTransmission = Succession | Donation

text \<open>
  The state the engine writes: \<^verbatim>\<open>results\<close> and \<^verbatim>\<open>chartData\<close>. The two chart
  labels of the source are string literals with accents; they are an enumeration here.
\<close>

record results =
  droitsAPayer :: number
  montantNet :: number
  abattementApplique :: number
  baseTaxable :: number

datatype chart_name = Montant_Net_Recu | Droits_a_payer

record app_state =
  st_results :: results
  st_chartData :: "(chart_name \<times> number) list"

text \<open>The initial values given to \<^verbatim>\<open>useState\<close>.\<close>

definition initial_state :: app_state where
  "initial_state =
     \<lparr>st_results = \<lparr>droitsAPayer = Fin 0, montantNet = Fin 0, abattementApplique = Fin 0, baseTaxable = Fin 0\<rparr>,
      st_chartData = []\<rparr>"

text \<open>
  Step 3 of the engine, the loop over the brackets:
  \<^verbatim>\<open>
  for (const palier of fiscalInfo.bareme) {
    if (montantRestantATaxer <= 0) break;
    const montantDansLaTranche = Math.min(montantRestantATaxer, palier.tranche - derniereTranche);
    droits += montantDansLaTranche * palier.taux;
    montantRestantATaxer -= montantDansLaTranche;
    derniereTranche = palier.tranche;
  }
  \<close>
  The arguments after the list are the three variables of the loop; the value is
  \<^verbatim>\<open>droits\<close> when the loop is left, the only one read afterwards.
\<close>

fun bareme_loop :: "palier list \<Rightarrow> number \<Rightarrow> number \<Rightarrow> number \<Rightarrow> number" where
  "bareme_loop [] droits montantRestantATaxer derniereTranche = droits"
| "bareme_loop (p # ps) droits montantRestantATaxer derniereTranche =
     (if js_le montantRestantATaxer (Fin 0) then droits
      else
        let montantDansLaTranche = Math_min montantRestantATaxer (js_sub (tranche p) derniereTranche)
        in bareme_loop ps
             (js_add droits (js_mul montantDansLaTranche (taux p)))
             (js_sub montantRestantATaxer montantDansLaTranche)
             (tranche p))"

text \<open>
  The body of the effect labelled "Calculation Engine" (the spec's \<^verbatim>\<open>compute\<close>). The
  registry, a global constant of the source, is the first argument, so that a statement
  can say that a branch does not read it. The value is \<open>Inr (Some _)\<close> with the
  arguments of \<^verbatim>\<open>setResults\<close> and \<^verbatim>\<open>setChartData\<close>, \<open>Inr None\<close> when the effect
  returns without calling them (\<^verbatim>\<open>if (!fiscalInfo) return;\<close>), and \<open>Inl TypeError\<close>
  when it throws: the \<^verbatim>\<open>for ... of\<close> statement throws a TypeError when
  \<^verbatim>\<open>fiscalInfo.bareme\<close> is \<^verbatim>\<open>undefined\<close>, before any setter is called.
\<close>

datatype js_error = TypeError

definition engine_in ::
  "(string \<rightharpoonup> AbattementInfo) \<Rightarrow> typeTransmission \<Rightarrow> string \<Rightarrow> number \<Rightarrow> number
     \<Rightarrow> js_error + (results \<times> (chart_name \<times> number) list) option" where
  "engine_in registry typeTrans lienParente montantTransmis donationsAnterieures =
     (if typeTrans = Succession \<and> lienParente = ''conjoint'' then
        Inr (Some (\<lparr>droitsAPayer = Fin 0, montantNet = montantTransmis,
                     abattementApplique = montantTransmis, baseTaxable = Fin 0\<rparr>,
                   [(Montant_Net_Recu, montantTransmis)]))
      else
        case get_property registry lienParente of
          Undefined \<Rightarrow> Inr None
        | fiscalInfo \<Rightarrow>
            let abattementDeBase = read_abattement fiscalInfo;
                abattementReel = Math_max (Fin 0) (js_sub abattementDeBase donationsAnterieures);
                base = Math_max (Fin 0) (js_sub montantTransmis abattementReel)
            in case read_bareme fiscalInfo of
                 None \<Rightarrow> Inl TypeError
               | Some paliers \<Rightarrow>
                   let droits = bareme_loop paliers (Fin 0) base (Fin 0);
                       montantNetRecu = js_sub montantTransmis droits
                   in Inr (Some (\<lparr>droitsAPayer = droits, montantNet = montantNetRecu,
                                   abattementApplique = abattementReel, baseTaxable = base\<rparr>,
                                 [(Montant_Net_Recu, montantNetRecu), (Droits_a_payer, droits)])))"

definition engine ::
  "typeTransmission \<Rightarrow> string \<Rightarrow> number \<Rightarrow> number
     \<Rightarrow> js_error + (results \<times> (chart_name \<times> number) list) option" where
  "engine = engine_in FISCAL_DATA"

text \<open>
  The result of a computation: the arguments given to the setters, \<open>None\<close> when the
  effect calls no setter.
\<close>

definition compute_in ::
  "(string \<rightharpoonup> AbattementInfo) \<Rightarrow> typeTransmission \<Rightarrow> string \<Rightarrow> number \<Rightarrow> number
     \<Rightarrow> (results \<times> (chart_name \<times> number) list) option" where
  "compute_in registry typeTrans lienParente montantTransmis donationsAnterieures =
     (case engine_in registry typeTrans lienParente montantTransmis donationsAnterieures of
        Inl e \<Rightarrow> None
      | Inr out \<Rightarrow> out)"

definition compute ::
  "typeTransmission \<Rightarrow> string \<Rightarrow> number \<Rightarrow> number \<Rightarrow> (results \<times> (chart_name \<times> number) list) option" where
  "compute = compute_in FISCAL_DATA"

text \<open>
  The effect on the state of the component: both setters, nothing, or the error that
  leaves the effect.
\<close>

definition calculation_engine ::
  "typeTransmission \<Rightarrow> string \<Rightarrow> number \<Rightarrow> number \<Rightarrow> app_state \<Rightarrow> js_error + app_state" where
  "calculation_engine typeTrans lienParente montantTransmis donationsAnterieures s =
     (case engine typeTrans lienParente montantTransmis donationsAnterieures of
        Inl e \<Rightarrow> Inl e
      | Inr None \<Rightarrow> Inr s
      | Inr (Some (r, c)) \<Rightarrow> Inr (s\<lparr>st_results := r, st_chartData := c\<rparr>))"

section \<open>Schedules on finite amounts\<close>

text \<open>
  A schedule is regular from a last threshold \<open>t\<close> on when its thresholds are finite
  and do not decrease, except that the last one may be \<^verbatim>\<open>Infinity\<close>, and its rates
  are finite and lie between 0 and 1.
\<close>

fun bareme_ok :: "rat \<Rightarrow> palier list \<Rightarrow> bool" where
  "bareme_ok t [] = True"
| "bareme_ok t (p # ps) =
     (case (tranche p, taux p) of
        (Fin b, Fin x) \<Rightarrow> t \<le> b \<and> 0 \<le> x \<and> x \<le> 1 \<and> bareme_ok b ps
      | (PInf, Fin x) \<Rightarrow> 0 \<le> x \<and> x \<le> 1 \<and> ps = []
      | _ \<Rightarrow> False)"

text \<open>
  What the loop computes on finite amounts over a regular schedule, as a function on
  rationals; \<open>bareme_loop_fin\<close> below relates the two.
\<close>

fun droits_fin :: "palier list \<Rightarrow> rat \<Rightarrow> rat \<Rightarrow> rat \<Rightarrow> rat" where
  "droits_fin [] d r t = d"
| "droits_fin (p # ps) d r t =
     (if r \<le> 0 then d
      else case (tranche p, taux p) of
        (Fin b, Fin x) \<Rightarrow> droits_fin ps (d + min r (b - t) * x) (r - min r (b - t)) b
      | (PInf, Fin x) \<Rightarrow> d + r * x
      | _ \<Rightarrow> d)"

text \<open>A finite number within \<open>eps\<close> of a rational.\<close>

fun is_about :: "rat \<Rightarrow> number \<Rightarrow> rat \<Rightarrow> bool" where
  "is_about eps (Fin x) y = (\<bar>x - y\<bar> \<le> eps)"
| "is_about eps a y = False"

section \<open>Arithmetic on finite numbers\<close>

lemma js_sub_Fin [simp]: "js_sub (Fin x) (Fin y) = Fin (x - y)"
  by (simp add: js_sub_def)

lemma js_sub_PInf_Fin [simp]: "js_sub PInf (Fin y) = PInf"
  by (simp add: js_sub_def)

lemma Math_max_Fin [simp]: "Math_max (Fin x) (Fin y) = Fin (max x y)"
  by (simp add: max_def)

lemma Math_min_Fin [simp]: "Math_min (Fin x) (Fin y) = Fin (min x y)"
  by (simp add: min_def)


section \<open>The loop on a regular schedule\<close>

text \<open>On finite amounts and a regular schedule the loop stays finite.\<close>

lemma bareme_loop_fin:
  "bareme_ok t ps \<Longrightarrow> bareme_loop ps (Fin d) (Fin r) (Fin t) = Fin (droits_fin ps d r t)"
proof (induction ps arbitrary: d r t)
  case Nil
  then show ?case by simp
next
  case (Cons p ps)
  show ?case
  proof (cases "r \<le> 0")
    case True
    then show ?thesis by simp
  next
    case False
    from Cons.prems obtain x where x: "taux p = Fin x"
      by (auto split: number.splits)
    from Cons.prems consider (fin) b where "tranche p = Fin b" "bareme_ok b ps" | (inf) "tranche p = PInf" "ps = []"
      by (auto split: number.splits)
    then show ?thesis
    proof cases
      case fin
      with False x Cons.IH [OF fin(2)] show ?thesis by (simp add: Let_def)
    next
      case inf
      with False x show ?thesis by (simp add: Let_def)
    qed
  qed
qed

lemma droits_fin_ge: "bareme_ok t ps \<Longrightarrow> d \<le> droits_fin ps d r t"
proof (induction ps arbitrary: d r t)
  case Nil
  then show ?case by simp
next
  case (Cons p ps)
  show ?case
  proof (cases "r \<le> 0")
    case True
    then show ?thesis by simp
  next
    case False
    from Cons.prems obtain x where x: "taux p = Fin x" "0 \<le> x"
      by (auto split: number.splits)
    from Cons.prems consider (fin) b where "tranche p = Fin b" "bareme_ok b ps" "t \<le> b" | (inf) "tranche p = PInf" "ps = []"
      by (auto split: number.splits)
    then show ?thesis
    proof cases
      case fin
      define m where "m = min r (b - t)"
      from False fin(3) have "0 \<le> m" by (simp add: m_def)
      with x have "d \<le> d + m * x" by simp
      also have "\<dots> \<le> droits_fin ps (d + m * x) (r - m) b"
        by (rule Cons.IH [OF fin(2)])
      finally show ?thesis using False x fin by (simp add: m_def)
    next
      case inf
      from False x have "0 \<le> r * x" by simp
      with False x inf show ?thesis by simp
    qed
  qed
qed

lemma droits_fin_le: "bareme_ok t ps \<Longrightarrow> 0 \<le> r \<Longrightarrow> droits_fin ps d r t \<le> d + r"
proof (induction ps arbitrary: d r t)
  case Nil
  then show ?case by simp
next
  case (Cons p ps)
  show ?case
  proof (cases "r \<le> 0")
    case True
    with Cons.prems show ?thesis by simp
  next
    case False
    from Cons.prems obtain x where x: "taux p = Fin x" "0 \<le> x" "x \<le> 1"
      by (auto split: number.splits)
    from Cons.prems consider (fin) b where "tranche p = Fin b" "bareme_ok b ps" "t \<le> b" | (inf) "tranche p = PInf" "ps = []"
      by (auto split: number.splits)
    then show ?thesis
    proof cases
      case fin
      define m where "m = min r (b - t)"
      from False fin(3) have m: "0 \<le> m" "m \<le> r" by (simp_all add: m_def)
      with x have mx: "m * x \<le> m" by (simp add: mult_left_le)
      from m have "droits_fin ps (d + m * x) (r - m) b \<le> d + m * x + (r - m)"
        by (intro Cons.IH [OF fin(2)]) simp
      with mx have "droits_fin ps (d + m * x) (r - m) b \<le> d + r" by simp
      then show ?thesis using False x fin by (simp add: m_def)
    next
      case inf
      from False x have "r * x \<le> r" by (simp add: mult_left_le)
      with False x inf show ?thesis by simp
    qed
  qed
qed

lemma droits_fin_mono:
  "bareme_ok t ps \<Longrightarrow> d \<le> d' \<Longrightarrow> r \<le> r' \<Longrightarrow> droits_fin ps d r t \<le> droits_fin ps d' r' t"
proof (induction ps arbitrary: d d' r r' t)
  case Nil
  then show ?case by simp
next
  case (Cons p ps)
  from Cons.prems obtain x where x: "taux p = Fin x" "0 \<le> x"
    by (auto split: number.splits)
  from Cons.prems consider (fin) b where "tranche p = Fin b" "bareme_ok b ps" "t \<le> b" | (inf) "tranche p = PInf" "ps = []"
    by (auto split: number.splits)
  then show ?case
  proof cases
    case fin
    show ?thesis
    proof (cases "r \<le> 0")
      case True
      have "d' \<le> droits_fin (p # ps) d' r' t"
        by (rule droits_fin_ge [OF Cons.prems(1)])
      with True Cons.prems(2) show ?thesis by simp
    next
      case False
      with Cons.prems(3) have r': "\<not> r' \<le> 0" by simp
      have "min r (b - t) * x \<le> min r' (b - t) * x"
        using Cons.prems(3) x(2) by (intro mult_right_mono) simp_all
      with Cons.prems(2) have 1: "d + min r (b - t) * x \<le> d' + min r' (b - t) * x" by simp
      have 2: "r - min r (b - t) \<le> r' - min r' (b - t)"
        using Cons.prems(3) by (simp add: min_def)
      from Cons.IH [OF fin(2) 1 2] False r' x fin show ?thesis by simp
    qed
  next
    case inf
    show ?thesis
    proof (cases "r \<le> 0")
      case True
      have "d' \<le> droits_fin (p # ps) d' r' t"
        by (rule droits_fin_ge [OF Cons.prems(1)])
      with True Cons.prems(2) show ?thesis by simp
    next
      case False
      with Cons.prems(3) have r': "\<not> r' \<le> 0" by simp
      have "r * x \<le> r' * x"
        using Cons.prems(3) x(2) by (intro mult_right_mono) simp_all
      with Cons.prems(2) False r' x inf show ?thesis by simp
    qed
  qed
qed



section \<open>The registry and the engine on finite amounts\<close>

text \<open>The result of a computation, branch by branch.\<close>

lemma compute_in_eq:
  "compute_in registry typeTrans lienParente montantTransmis donationsAnterieures =
     (if typeTrans = Succession \<and> lienParente = ''conjoint'' then
        Some (\<lparr>droitsAPayer = Fin 0, montantNet = montantTransmis,
                abattementApplique = montantTransmis, baseTaxable = Fin 0\<rparr>,
              [(Montant_Net_Recu, montantTransmis)])
      else
        case registry lienParente of
          None \<Rightarrow> None
        | Some fiscalInfo \<Rightarrow>
            let abattementDeBase = abattement fiscalInfo;
                abattementReel = Math_max (Fin 0) (js_sub abattementDeBase donationsAnterieures);
                base = Math_max (Fin 0) (js_sub montantTransmis abattementReel);
                droits = bareme_loop (bareme fiscalInfo) (Fin 0) base (Fin 0);
                montantNetRecu = js_sub montantTransmis droits
            in Some (\<lparr>droitsAPayer = droits, montantNet = montantNetRecu,
                       abattementApplique = abattementReel, baseTaxable = base\<rparr>,
                     [(Montant_Net_Recu, montantNetRecu), (Droits_a_payer, droits)]))"
  by (simp add: compute_in_def engine_in_def get_property_def Let_def split: option.splits)

lemma dom_FISCAL_DATA:
  "dom FISCAL_DATA = {''enfant'', ''conjoint'', ''frere-soeur'', ''neveu-niece'', ''autre''}"
  by (auto simp: FISCAL_DATA_def)

lemma FISCAL_DATA_regular:
  assumes "FISCAL_DATA l = Some info"
  shows "bareme_ok 0 (bareme info)" and "\<exists>ab. abattement info = Fin ab \<and> 0 \<le> ab"
  using assms by (auto simp: FISCAL_DATA_def bareme_ligne_directe_def split: if_splits)

lemma compute_fin:
  assumes "FISCAL_DATA l = Some info" and "abattement info = Fin ab"
    and "\<not> (t = Succession \<and> l = ''conjoint'')"
  shows "compute t l (Fin a) (Fin p) =
    (let ar = max 0 (ab - p); base = max 0 (a - ar); d = droits_fin (bareme info) 0 base 0
     in Some (\<lparr>droitsAPayer = Fin d, montantNet = Fin (a - d),
                abattementApplique = Fin ar, baseTaxable = Fin base\<rparr>,
              [(Montant_Net_Recu, Fin (a - d)), (Droits_a_payer, Fin d)]))"
proof -
  have ok: "bareme_ok 0 (bareme info)"
    by (rule FISCAL_DATA_regular(1) [OF assms(1)])
  show ?thesis
    using assms by (simp add: compute_def compute_in_eq Let_def bareme_loop_fin [OF ok])
qed

lemma compute_exempt:
  "compute_in registry Succession ''conjoint'' a p =
     Some (\<lparr>droitsAPayer = Fin 0, montantNet = a, abattementApplique = a, baseTaxable = Fin 0\<rparr>,
           [(Montant_Net_Recu, a)])"
  by (simp add: compute_in_eq)

lemmas registry_defs = compute_def compute_in_eq FISCAL_DATA_def bareme_ligne_directe_def

text \<open>
  An amount that is not finite leaves this domain: at \<^verbatim>\<open>Infinity\<close> the last bracket
  gives an infinite tax, and the net amount, infinity minus infinity, is NaN.
\<close>

lemma compute_at_infinity:
  "map_option fst (compute Donation ''enfant'' PInf (Fin 0)) =
     Some \<lparr>droitsAPayer = PInf, montantNet = NaN, abattementApplique = Fin 100000, baseTaxable = PInf\<rparr>"
  by (simp add: registry_defs Let_def js_sub_def)

text \<open>
  Under a name inherited from \<^verbatim>\<open>Object.prototype\<close> the guard lets the value
  through, and the loop throws before any setter is called.
\<close>

lemma inherited_name_throws:
  assumes "l \<in> set Object_prototype_names"
  shows "engine t l a p = Inl TypeError \<and> compute t l a p = None
    \<and> calculation_engine t l a p s = Inl TypeError"
proof -
  from assms have "FISCAL_DATA l = None" and "l \<noteq> ''conjoint''"
    by (auto simp: Object_prototype_names_def FISCAL_DATA_def)
  with assms have "engine t l a p = Inl TypeError"
    by (simp add: engine_def engine_in_def get_property_def)
  then show ?thesis
    by (simp add: calculation_engine_def compute_def compute_in_def engine_def)
qed

section \<open>The claims\<close>

text \<open>
  In the statements below an amount \<open>Fin a\<close> is a finite number, as an amount of money
  is; \<open>t\<close> is the type of transmission, \<open>l\<close> the relationship (\<^verbatim>\<open>lienParente\<close>),
  and an input is exempt when \<open>t = Succession \<and> l = ''conjoint''\<close>.
\<close>

text \<open>
  C1 (the claim fails): for a gift of 300000 to a child with no prior gift, the claim gives
  a tax due of about 35974.50 and a net amount of about 264025.50. The engine returns
  38194.35 and 261805.65, more than 1000 away from the claimed amounts.
\<close>

theorem scenario_gift_child_counterexample:
  "map_option (droitsAPayer \<circ> fst) (compute Donation ''enfant'' (Fin 300000) (Fin 0)) = Some (Fin (3819435 / 100))
   \<and> \<not> is_about 1000 (Fin (3819435 / 100)) (3597450 / 100)
   \<and> map_option (montantNet \<circ> fst) (compute Donation ''enfant'' (Fin 300000) (Fin 0)) = Some (Fin (26180565 / 100))
   \<and> \<not> is_about 1000 (Fin (26180565 / 100)) (26402550 / 100)"
  by (simp add: registry_defs Let_def)

text \<open>
  C1 (amended): for a gift of 300000 to a child with no prior gift, the engine returns
  an applied allowance of 100000, a taxable base of 200000, a tax due of 38194.35 and a
  net amount of 261805.65. Each bracket taxes the part of the base between the previous
  threshold and its own: 8072 at 5%, 4037 at 10%, 3823 at 15% and 184068 at 20%.
\<close>

theorem scenario_gift_child:
  "map_option fst (compute Donation ''enfant'' (Fin 300000) (Fin 0)) =
     Some \<lparr>droitsAPayer = Fin (3819435 / 100), montantNet = Fin (26180565 / 100),
           abattementApplique = Fin 100000, baseTaxable = Fin 200000\<rparr>
   \<and> (3819435 / 100 :: rat) =
       8072 * (5 / 100) + (12109 - 8072) * (10 / 100) + (15932 - 12109) * (15 / 100)
         + (200000 - 15932) * (20 / 100)"
  by (simp add: registry_defs Let_def)

text \<open>
  C2: for an inheritance to the spouse, whatever the amount transferred and the prior
  gifts, the engine returns a tax due of 0, a net amount equal to the amount transferred,
  an applied allowance equal to the amount transferred and a taxable base of 0, and the
  result is the same over every registry: the branch does not read it.
\<close>

theorem exemption_spouse_inheritance:
  "compute Succession ''conjoint'' a p =
     Some (\<lparr>droitsAPayer = Fin 0, montantNet = a, abattementApplique = a, baseTaxable = Fin 0\<rparr>,
           [(Montant_Net_Recu, a)])
   \<and> compute_in registry Succession ''conjoint'' a p = compute Succession ''conjoint'' a p"
  by (simp add: compute_def compute_exempt)

text \<open>
  C3: in every computation that is not exempt, on a relationship of the registry, the
  applied allowance is \<open>max(0, allowance - prior gifts)\<close>. When the prior gifts reach the
  allowance, the applied allowance is 0, the taxable base is \<open>max(0, amount)\<close>, and the
  whole result is the one obtained with prior gifts equal to the allowance: what exceeds
  it has no effect.
\<close>

theorem allowance_reduction:
  assumes "FISCAL_DATA l = Some info" and "\<not> (t = Succession \<and> l = ''conjoint'')"
  shows "\<exists>r c ab. compute t l (Fin a) (Fin p) = Some (r, c) \<and> abattement info = Fin ab
    \<and> abattementApplique r = Math_max (Fin 0) (js_sub (abattement info) (Fin p))
    \<and> abattementApplique r = Fin (max 0 (ab - p))
    \<and> (ab \<le> p \<longrightarrow> abattementApplique r = Fin 0 \<and> baseTaxable r = Fin (max 0 a)
          \<and> compute t l (Fin a) (Fin p) = compute t l (Fin a) (Fin ab))"
proof -
  from FISCAL_DATA_regular(2) [OF assms(1)] obtain ab where ab: "abattement info = Fin ab"
    by blast
  note eq = compute_fin [OF assms(1) ab assms(2)]
  show ?thesis
    by (simp add: eq ab Let_def max_def)
qed

text \<open>The theorem at the relationship \<open>autre\<close>, 10000 transferred after 9000 of prior gifts.\<close>

theorem allowance_reduction_witness:
  "FISCAL_DATA ''autre'' = Some \<lparr>abattement = Fin 1594, bareme = [\<lparr>tranche = PInf, taux = Fin (60 / 100)\<rparr>], info_note = None\<rparr>
   \<and> (1594 :: rat) \<le> 9000
   \<and> map_option (abattementApplique \<circ> fst) (compute Succession ''autre'' (Fin 10000) (Fin 9000)) = Some (Fin 0)
   \<and> map_option (baseTaxable \<circ> fst) (compute Succession ''autre'' (Fin 10000) (Fin 9000)) = Some (Fin 10000)
   \<and> compute Succession ''autre'' (Fin 10000) (Fin 9000) = compute Succession ''autre'' (Fin 10000) (Fin 1594)"
proof -
  have h: "FISCAL_DATA ''autre'' = Some \<lparr>abattement = Fin 1594, bareme = [\<lparr>tranche = PInf, taux = Fin (60 / 100)\<rparr>], info_note = None\<rparr>"
    by (simp add: FISCAL_DATA_def)
  have n: "\<not> (Succession = Succession \<and> ''autre'' = ''conjoint'')"
    by simp
  from allowance_reduction [OF h n, of 10000 9000] show ?thesis
    using h by auto
qed

text \<open>
  C5: for every relationship of the registry and type of transmission that is not
  exempt, with no prior gift, the tax due does not decrease when the amount transferred
  grows: the engine returns a result at both amounts, and the tax due at the smaller is at
  most the tax due at the larger.
\<close>

theorem taxDue_monotone_in_transfer:
  assumes "l \<in> dom FISCAL_DATA" and "\<not> (t = Succession \<and> l = ''conjoint'')" and "a \<le> b"
  shows "\<exists>ra ca rb cb. compute t l (Fin a) (Fin 0) = Some (ra, ca)
    \<and> compute t l (Fin b) (Fin 0) = Some (rb, cb)
    \<and> js_le (droitsAPayer ra) (droitsAPayer rb)"
proof -
  from assms(1) obtain info where info: "FISCAL_DATA l = Some info"
    by blast
  from FISCAL_DATA_regular(2) [OF info] obtain ab where ab: "abattement info = Fin ab"
    by blast
  have ok: "bareme_ok 0 (bareme info)"
    by (rule FISCAL_DATA_regular(1) [OF info])
  from assms(3) have "max 0 (a - max 0 (ab - 0)) \<le> max 0 (b - max 0 (ab - 0))"
    by (simp add: max_def)
  then have "droits_fin (bareme info) 0 (max 0 (a - max 0 (ab - 0))) 0
      \<le> droits_fin (bareme info) 0 (max 0 (b - max 0 (ab - 0))) 0"
    by (intro droits_fin_mono [OF ok]) simp_all
  then show ?thesis
    by (simp add: compute_fin [OF info ab assms(2)] Let_def)
qed

text \<open>The theorem at an inheritance to a child, 100000 against 300000.\<close>

theorem taxDue_monotone_in_transfer_witness:
  "''enfant'' \<in> dom FISCAL_DATA \<and> \<not> (Succession = Succession \<and> ''enfant'' = ''conjoint'')
   \<and> (100000 :: rat) \<le> 300000
   \<and> (\<exists>ra ca rb cb. compute Succession ''enfant'' (Fin 100000) (Fin 0) = Some (ra, ca)
         \<and> compute Succession ''enfant'' (Fin 300000) (Fin 0) = Some (rb, cb)
         \<and> js_le (droitsAPayer ra) (droitsAPayer rb))"
proof -
  have h: "''enfant'' \<in> dom FISCAL_DATA"
    by (simp add: dom_FISCAL_DATA)
  have n: "\<not> (Succession = Succession \<and> ''enfant'' = ''conjoint'')"
    by simp
  have le: "(100000 :: rat) \<le> 300000"
    by simp
  from taxDue_monotone_in_transfer [OF h n le] h n le show ?thesis
    by blast
qed

text \<open>
  C6 (the claim fails): in the exemption case the applied allowance is the amount
  transferred. For an inheritance of 500000 to the spouse it is 500000, above the
  allowance 80724 of the spouse profile.
\<close>

theorem allowance_bound_counterexample:
  "map_option (abattementApplique \<circ> fst) (compute Succession ''conjoint'' (Fin 500000) (Fin 0)) = Some (Fin 500000)
   \<and> map_option abattement (FISCAL_DATA ''conjoint'') = Some (Fin 80724)
   \<and> \<not> js_le (Fin 500000) (Fin 80724)"
  by (simp add: registry_defs)

text \<open>
  C6 (amended): every result of a computation that is not exempt, with prior gifts that
  are not negative, has an applied allowance between 0 and the allowance of the profile
  of the relationship; in the exemption case the applied allowance is the amount
  transferred.
\<close>

theorem allowance_bound_non_exempt:
  assumes "FISCAL_DATA l = Some info" and "\<not> (t = Succession \<and> l = ''conjoint'')" and "0 \<le> p"
  shows "(\<exists>r c. compute t l (Fin a) (Fin p) = Some (r, c)
      \<and> js_le (Fin 0) (abattementApplique r) \<and> js_le (abattementApplique r) (abattement info))
    \<and> map_option (abattementApplique \<circ> fst) (compute Succession ''conjoint'' (Fin a) (Fin p)) = Some (Fin a)"
proof -
  from FISCAL_DATA_regular(2) [OF assms(1)] obtain ab where ab: "abattement info = Fin ab" "0 \<le> ab"
    by blast
  have "compute Succession ''conjoint'' (Fin a) (Fin p) =
      Some (\<lparr>droitsAPayer = Fin 0, montantNet = Fin a, abattementApplique = Fin a, baseTaxable = Fin 0\<rparr>,
            [(Montant_Net_Recu, Fin a)])"
    by (simp add: compute_def compute_exempt)
  with assms(3) ab(2) show ?thesis
    by (simp add: compute_fin [OF assms(1) ab(1) assms(2)] ab(1) Let_def)
qed

text \<open>The theorem at a gift of 300000 to the spouse after 30000 of prior gifts.\<close>

theorem allowance_bound_non_exempt_witness:
  "FISCAL_DATA ''conjoint'' = Some \<lparr>abattement = Fin 80724, bareme = bareme_ligne_directe,
       info_note = Some ''Pour une succession, le conjoint ou partenaire de PACS est totalement exonere.''\<rparr>
   \<and> \<not> (Donation = Succession \<and> ''conjoint'' = ''conjoint'') \<and> (0 :: rat) \<le> 30000
   \<and> (\<exists>r c. compute Donation ''conjoint'' (Fin 300000) (Fin 30000) = Some (r, c)
         \<and> js_le (abattementApplique r) (Fin 80724))"
proof -
  have h: "FISCAL_DATA ''conjoint'' = Some \<lparr>abattement = Fin 80724, bareme = bareme_ligne_directe,
       info_note = Some ''Pour une succession, le conjoint ou partenaire de PACS est totalement exonere.''\<rparr>"
    by (simp add: FISCAL_DATA_def)
  have n: "\<not> (Donation = Succession \<and> ''conjoint'' = ''conjoint'')"
    by simp
  have le: "(0 :: rat) \<le> 30000"
    by simp
  from allowance_bound_non_exempt [OF h n le, of 300000] h n le show ?thesis
    by auto
qed

text \<open>
  C7: for every input with finite amounts and an amount transferred that is not
  negative, the four fields of a result the engine returns (tax due, net amount, applied
  allowance, taxable base) are not negative. This covers the exemption case, and the
  prior gifts need not be non-negative.
\<close>

theorem outputs_non_negative:
  assumes "compute t l (Fin a) (Fin p) = Some (r, c)" and "0 \<le> a"
  shows "js_le (Fin 0) (droitsAPayer r) \<and> js_le (Fin 0) (montantNet r)
    \<and> js_le (Fin 0) (abattementApplique r) \<and> js_le (Fin 0) (baseTaxable r)"
proof (cases "t = Succession \<and> l = ''conjoint''")
  case True
  with assms show ?thesis
    by (auto simp: compute_def compute_exempt)
next
  case False
  from assms(1) False obtain info where info: "FISCAL_DATA l = Some info"
    by (auto simp: compute_def compute_in_eq split: option.splits)
  from FISCAL_DATA_regular(2) [OF info] obtain ab where ab: "abattement info = Fin ab"
    by blast
  have ok: "bareme_ok 0 (bareme info)"
    by (rule FISCAL_DATA_regular(1) [OF info])
  define base where "base = max 0 (a - max 0 (ab - p))"
  define d where "d = droits_fin (bareme info) 0 base 0"
  have base: "0 \<le> base" "base \<le> a"
    using assms(2) by (simp_all add: base_def max_def)
  have d0: "0 \<le> d"
    unfolding d_def by (rule droits_fin_ge [OF ok])
  have "d \<le> 0 + base"
    unfolding d_def by (rule droits_fin_le [OF ok base(1)])
  with base(2) have da: "d \<le> a"
    by simp
  from assms(1) have "r = \<lparr>droitsAPayer = Fin d, montantNet = Fin (a - d),
      abattementApplique = Fin (max 0 (ab - p)), baseTaxable = Fin base\<rparr>"
    by (simp add: compute_fin [OF info ab False] Let_def d_def base_def)
  with d0 da base(1) show ?thesis
    by simp
qed

text \<open>The theorem at a gift of 50000 to a sibling.\<close>

theorem outputs_non_negative_witness:
  "compute Donation ''frere-soeur'' (Fin 50000) (Fin 0) =
     Some (\<lparr>droitsAPayer = Fin (1288760 / 100), montantNet = Fin (3711240 / 100),
             abattementApplique = Fin 15932, baseTaxable = Fin 34068\<rparr>,
           [(Montant_Net_Recu, Fin (3711240 / 100)), (Droits_a_payer, Fin (1288760 / 100))])
   \<and> (0 :: rat) \<le> 50000
   \<and> js_le (Fin 0) (Fin (1288760 / 100)) \<and> js_le (Fin 0) (Fin (3711240 / 100))
   \<and> js_le (Fin 0) (Fin 15932) \<and> js_le (Fin 0) (Fin 34068)"
proof -
  have h: "compute Donation ''frere-soeur'' (Fin 50000) (Fin 0) =
     Some (\<lparr>droitsAPayer = Fin (1288760 / 100), montantNet = Fin (3711240 / 100),
             abattementApplique = Fin 15932, baseTaxable = Fin 34068\<rparr>,
           [(Montant_Net_Recu, Fin (3711240 / 100)), (Droits_a_payer, Fin (1288760 / 100))])"
    by (simp add: registry_defs Let_def)
  have le: "(0 :: rat) \<le> 50000"
    by simp
  from outputs_non_negative [OF h le] h le show ?thesis
    by simp
qed

text \<open>
  C8 (the claim fails): on a relationship that is not in the registry the engine reports
  no error. With \<open>cousin\<close> the lookup is undefined and the effect returns without
  calling the setters: the results of the previous computation (here a gift of 300000 to
  a child) stay in the state.
\<close>

theorem unknown_category_counterexample:
  "FISCAL_DATA ''cousin'' = None
   \<and> engine Donation ''cousin'' (Fin 300000) (Fin 0) = Inr None
   \<and> compute Donation ''cousin'' (Fin 300000) (Fin 0) = None
   \<and> calculation_engine Donation ''enfant'' (Fin 300000) (Fin 0) initial_state =
       Inr \<lparr>st_results = \<lparr>droitsAPayer = Fin (3819435 / 100), montantNet = Fin (26180565 / 100),
                            abattementApplique = Fin 100000, baseTaxable = Fin 200000\<rparr>,
            st_chartData = [(Montant_Net_Recu, Fin (26180565 / 100)), (Droits_a_payer, Fin (3819435 / 100))]\<rparr>
   \<and> calculation_engine Donation ''cousin'' (Fin 300000) (Fin 0)
         \<lparr>st_results = \<lparr>droitsAPayer = Fin (3819435 / 100), montantNet = Fin (26180565 / 100),
                         abattementApplique = Fin 100000, baseTaxable = Fin 200000\<rparr>,
          st_chartData = [(Montant_Net_Recu, Fin (26180565 / 100)), (Droits_a_payer, Fin (3819435 / 100))]\<rparr> =
       Inr \<lparr>st_results = \<lparr>droitsAPayer = Fin (3819435 / 100), montantNet = Fin (26180565 / 100),
                            abattementApplique = Fin 100000, baseTaxable = Fin 200000\<rparr>,
            st_chartData = [(Montant_Net_Recu, Fin (26180565 / 100)), (Droits_a_payer, Fin (3819435 / 100))]\<rparr>"
  by (simp add: calculation_engine_def engine_def engine_in_def get_property_def
      Object_prototype_names_def initial_state_def registry_defs Let_def)

text \<open>
  C8 (amended): when the relationship is not a key of the registry and the lookup gives
  \<^verbatim>\<open>undefined\<close> (the relationship is not the name of a property inherited from
  \<^verbatim>\<open>Object.prototype\<close>), the engine uses no other profile and reports no error: it
  returns without a result and leaves the state, the previous results included, as it
  was.
\<close>

theorem unknown_category_silent:
  assumes "l \<notin> dom FISCAL_DATA" and "l \<notin> set Object_prototype_names"
  shows "engine t l a p = Inr None \<and> compute t l a p = None
    \<and> calculation_engine t l a p s = Inr s"
proof -
  from assms(1) have none: "FISCAL_DATA l = None"
    by blast
  then have "l \<noteq> ''conjoint''"
    by (auto simp: FISCAL_DATA_def)
  with none assms(2) have "engine t l a p = Inr None"
    by (simp add: engine_def engine_in_def get_property_def)
  then show ?thesis
    by (simp add: calculation_engine_def compute_def compute_in_def engine_def)
qed

text \<open>The theorem at the relationship \<open>cousin\<close>.\<close>

theorem unknown_category_silent_witness:
  "''cousin'' \<notin> dom FISCAL_DATA \<and> ''cousin'' \<notin> set Object_prototype_names
   \<and> engine Succession ''cousin'' (Fin 10000) (Fin 0) = Inr None
   \<and> compute Succession ''cousin'' (Fin 10000) (Fin 0) = None
   \<and> calculation_engine Succession ''cousin'' (Fin 10000) (Fin 0) initial_state = Inr initial_state"
proof -
  have h: "''cousin'' \<notin> dom FISCAL_DATA"
    by (simp add: dom_FISCAL_DATA)
  have n: "''cousin'' \<notin> set Object_prototype_names"
    by (simp add: Object_prototype_names_def)
  from unknown_category_silent [OF h n] h n show ?thesis
    by blast
qed

text \<open>
  C9 (the claim fails): a negative amount is not rejected. With prior gifts of -1000 a
  gift of 300000 to a child gets an applied allowance of 101000, and a gift of -5 gets a
  tax due of 0 and a net amount of -5.
\<close>

theorem negative_amounts_counterexample:
  "map_option fst (compute Donation ''enfant'' (Fin 300000) (Fin (- 1000))) =
     Some \<lparr>droitsAPayer = Fin (3799435 / 100), montantNet = Fin (26200565 / 100),
           abattementApplique = Fin 101000, baseTaxable = Fin 199000\<rparr>
   \<and> map_option fst (compute Donation ''enfant'' (Fin (- 5)) (Fin 0)) =
     Some \<lparr>droitsAPayer = Fin 0, montantNet = Fin (- 5),
           abattementApplique = Fin 100000, baseTaxable = Fin 0\<rparr>"
  by (simp add: registry_defs Let_def)

text \<open>
  C9 (amended): the engine checks no amount. On every relationship of the registry,
  outside the exemption case, it returns a result for all finite amounts, negative ones
  included, by the same formulas: negative prior gifts give an applied allowance of
  \<open>allowance - prior gifts\<close>, above the allowance, and a negative amount transferred
  gives a taxable base of 0, a tax due of 0 and a net amount equal to that amount.
\<close>

theorem negative_amounts_not_rejected:
  assumes "FISCAL_DATA l = Some info" and "\<not> (t = Succession \<and> l = ''conjoint'')"
  shows "\<exists>r c ab. compute t l (Fin a) (Fin p) = Some (r, c) \<and> abattement info = Fin ab
    \<and> (p < 0 \<longrightarrow> abattementApplique r = Fin (ab - p))
    \<and> (a < 0 \<longrightarrow> baseTaxable r = Fin 0 \<and> droitsAPayer r = Fin 0 \<and> montantNet r = Fin a)"
proof -
  from FISCAL_DATA_regular(2) [OF assms(1)] obtain ab where ab: "abattement info = Fin ab" "0 \<le> ab"
    by blast
  have zero: "droits_fin (bareme info) 0 0 0 = 0"
    by (cases "bareme info") simp_all
  have base: "a < 0 \<Longrightarrow> max 0 (a - max 0 (ab - p)) = 0"
    by (simp add: max_def)
  from ab(2) show ?thesis
    by (auto simp: compute_fin [OF assms(1) ab(1) assms(2)] ab(1) Let_def base zero)
qed

text \<open>The theorem at the relationship \<open>autre\<close>, -5 transferred with prior gifts of -1000.\<close>

theorem negative_amounts_not_rejected_witness:
  "FISCAL_DATA ''autre'' = Some \<lparr>abattement = Fin 1594, bareme = [\<lparr>tranche = PInf, taux = Fin (60 / 100)\<rparr>], info_note = None\<rparr>
   \<and> \<not> (Succession = Succession \<and> ''autre'' = ''conjoint'')
   \<and> (- 1000 :: rat) < 0 \<and> (- 5 :: rat) < 0
   \<and> map_option fst (compute Succession ''autre'' (Fin (- 5)) (Fin (- 1000))) =
       Some \<lparr>droitsAPayer = Fin 0, montantNet = Fin (- 5), abattementApplique = Fin 2594, baseTaxable = Fin 0\<rparr>"
proof -
  have h: "FISCAL_DATA ''autre'' = Some \<lparr>abattement = Fin 1594, bareme = [\<lparr>tranche = PInf, taux = Fin (60 / 100)\<rparr>], info_note = None\<rparr>"
    by (simp add: FISCAL_DATA_def)
  have n: "\<not> (Succession = Succession \<and> ''autre'' = ''conjoint'')"
    by simp
  from negative_amounts_not_rejected [OF h n, of "- 5" "- 1000"] h show ?thesis
    by auto
qed

text \<open>
  C10: in every computation that is not exempt, on a relationship of the registry and
  with the amount transferred fixed, the tax due does not decrease and the net amount
  does not increase when the prior gifts grow.
\<close>

theorem taxDue_monotone_in_prior_gifts:
  assumes "l \<in> dom FISCAL_DATA" and "\<not> (t = Succession \<and> l = ''conjoint'')" and "p \<le> p'"
  shows "\<exists>r c r' c'. compute t l (Fin a) (Fin p) = Some (r, c)
    \<and> compute t l (Fin a) (Fin p') = Some (r', c')
    \<and> js_le (droitsAPayer r) (droitsAPayer r') \<and> js_le (montantNet r') (montantNet r)"
proof -
  from assms(1) obtain info where info: "FISCAL_DATA l = Some info"
    by blast
  from FISCAL_DATA_regular(2) [OF info] obtain ab where ab: "abattement info = Fin ab"
    by blast
  have ok: "bareme_ok 0 (bareme info)"
    by (rule FISCAL_DATA_regular(1) [OF info])
  from assms(3) have "max 0 (a - max 0 (ab - p)) \<le> max 0 (a - max 0 (ab - p'))"
    by (simp add: max_def)
  then have "droits_fin (bareme info) 0 (max 0 (a - max 0 (ab - p))) 0
      \<le> droits_fin (bareme info) 0 (max 0 (a - max 0 (ab - p'))) 0"
    by (intro droits_fin_mono [OF ok]) simp_all
  then show ?thesis
    by (simp add: compute_fin [OF info ab assms(2)] Let_def)
qed

text \<open>The theorem at a gift of 300000 to a child, prior gifts of 0 against 50000.\<close>

theorem taxDue_monotone_in_prior_gifts_witness:
  "''enfant'' \<in> dom FISCAL_DATA \<and> \<not> (Donation = Succession \<and> ''enfant'' = ''conjoint'')
   \<and> (0 :: rat) \<le> 50000
   \<and> (\<exists>r c r' c'. compute Donation ''enfant'' (Fin 300000) (Fin 0) = Some (r, c)
         \<and> compute Donation ''enfant'' (Fin 300000) (Fin 50000) = Some (r', c')
         \<and> js_le (droitsAPayer r) (droitsAPayer r') \<and> js_le (montantNet r') (montantNet r))"
proof -
  have h: "''enfant'' \<in> dom FISCAL_DATA"
    by (simp add: dom_FISCAL_DATA)
  have n: "\<not> (Donation = Succession \<and> ''enfant'' = ''conjoint'')"
    by simp
  have le: "(0 :: rat) \<le> 50000"
    by simp
  from taxDue_monotone_in_prior_gifts [OF h n le] h n le show ?thesis
    by blast
qed

end
